theory Spec2Isabelle
  imports Main "HOL-Library.Word"
begin

section \<open>Data model\<close>

type_synonym u8 = "8 word"
type_synonym u32 = "32 word"
type_synonym u64 = "64 word"

text \<open>
  A run-time panic of the Go program. The only one the modelled code can raise is the
  integer division by zero of \<open>cmd / uint32(MsgCmdOffset)\<close>.
\<close>

datatype go_panic = DivideByZero

text \<open>Go's \<open>/\<close> and \<open>%\<close> on \<open>uint32\<close>: they panic on a zero divisor.\<close>

definition go_div :: "u32 \<Rightarrow> u32 \<Rightarrow> go_panic + u32" where
  "go_div a b = (if b = 0 then Inl DivideByZero else Inr (a div b))"

definition go_mod :: "u32 \<Rightarrow> u32 \<Rightarrow> go_panic + u32" where
  "go_mod a b = (if b = 0 then Inl DivideByZero else Inr (a mod b))"

text \<open>\<open>protocol.MSG_GW_RELAY_CLIENT_MSG\<close>: the relay envelope.\<close>

record MSG_GW_RELAY_CLIENT_MSG =
  Account :: string
  CMD :: u32
  Data :: "u8 list"

text \<open>
  What \<open>tokenObj.GetToken(false)\<close> gives after a successful \<open>Load\<close>: the stored
  credential and the entries of the map returned by \<open>GetAllocServers()\<close>, in the order
  in which the \<open>range\<close> loop of \<open>VerifyToken\<close> visits them. Being the entries of a Go map,
  their keys are pairwise distinct.
\<close>

record 'sid token_data =
  Token :: string
  AllocServers :: "(u32 \<times> 'sid) list"

text \<open>The lines written through \<open>gw.ctx.Log\<close>, one constructor for each call site.\<close>

datatype log_entry =
    LoadFailed string string
  | TokenVerificationFailed string string string
  | WrongMessageNumber u32 string
  | NoServerInformation string u32
  | TargetServerNotFound u32 string u32
  | SendingToTargetFailed u32 string u32

text \<open>
  The collaborators of the gateway that are declared outside the modelled file, taken as
  parameters:
  \<^item> \<open>MsgCmdOffset\<close> is \<open>uint32(gw.ctx.Config.Common.MsgCmdOffset)\<close>;
  \<^item> \<open>NodeTypeSize\<close> and \<open>Gateway\<close> are the constants \<open>common.NodeTypeSize\<close> and
    \<open>common.Gateway\<close> of the enumeration \<open>common.NodeType\<close>, read as unsigned 32-bit
    values (the conversions \<open>common.NodeType(_)\<close> and \<open>uint32(nodeType)\<close> keep the value);
  \<^item> \<open>CMD_GW_RELAY_CLIENT_MSG\<close> is \<open>uint64(protocol.CMD_GW_RELAY_CLIENT_MSG)\<close>;
  \<^item> \<open>GetNode\<close> and \<open>GetNodeOne\<close> are the node registry (\<open>None\<close> is Go's \<open>nil\<close>),
    \<open>SendMsg\<close> is the result of \<open>target.SendMsg\<close>;
  \<^item> \<open>LoadToken\<close> is \<open>db.NewToken(name, account)\<close> followed by \<open>Load()\<close> and
    \<open>GetToken(false)\<close>: \<open>Inl\<close> carries the error of \<open>Load\<close>;
  \<^item> \<open>ServerID2NodeID\<close> is \<open>utility.ServerID2NodeID\<close>.
\<close>

record ('nid, 'node, 'sid) common_context =
  MsgCmdOffset :: u32
  NodeTypeSize :: u32
  Gateway :: u32
  CMD_GW_RELAY_CLIENT_MSG :: u64
  GetNode :: "'nid \<Rightarrow> 'node option"
  GetNodeOne :: "u32 \<Rightarrow> 'node option"
  SendMsg :: "'node \<Rightarrow> u64 \<Rightarrow> MSG_GW_RELAY_CLIENT_MSG \<Rightarrow> bool"
  LoadToken :: "string \<Rightarrow> string + 'sid token_data"
  ServerID2NodeID :: "'sid \<Rightarrow> 'nid"

text \<open>
  The mutable state: the field \<open>allocServers\<close> of the Go struct \<open>Gateway\<close>, together
  with the two effects the code has on the outside, the log lines written (\<open>logged\<close>) and
  the calls of \<open>target.SendMsg\<close> made (\<open>relayed\<close>: target, command code, envelope).
\<close>

record ('nid, 'node) gateway =
  allocServers :: "string \<rightharpoonup> (u32 \<rightharpoonup> 'nid)"
  logged :: "log_entry list"
  relayed :: "('node \<times> u64 \<times> MSG_GW_RELAY_CLIENT_MSG) list"

section \<open>Command namespace\<close>

text \<open>
  The two computations of \<open>OnRecvFromClient\<close> on the wire command,
  \<open>cmd / uint32(MsgCmdOffset)\<close> and \<open>cmd % uint32(MsgCmdOffset)\<close>, as one pair.
\<close>

definition decode :: "u32 \<Rightarrow> u32 \<Rightarrow> go_panic + (u32 \<times> u32)" where
  "decode offset cmd =
     (case go_div cmd offset of
        Inl p \<Rightarrow> Inl p
      | Inr serviceType \<Rightarrow>
          (case go_mod cmd offset of
             Inl p \<Rightarrow> Inl p
           | Inr localCmd \<Rightarrow> Inr (serviceType, localCmd)))"

text \<open>
  Modelled from the spec: the source has no encoder (clients build the wire command); the
  specification gives \<open>encode(serviceType, localCmd) = serviceType * OFFSET + localCmd\<close>
  on the 32-bit command type, so the arithmetic is that of \<open>uint32\<close>.
\<close>

definition encode :: "u32 \<Rightarrow> u32 \<Rightarrow> u32 \<Rightarrow> u32" where
  "encode offset serviceType localCmd = serviceType * offset + localCmd"

section \<open>Gateway\<close>

text \<open>The body of the \<open>range\<close> loop of \<open>VerifyToken\<close>, run over the entries in order.\<close>

fun assignAll :: "('sid \<Rightarrow> 'nid) \<Rightarrow> (u32 \<times> 'sid) list \<Rightarrow> (u32 \<rightharpoonup> 'nid) \<Rightarrow> (u32 \<rightharpoonup> 'nid)" where
  "assignAll conv [] m = m"
| "assignAll conv ((k, v) # kvs) m = assignAll conv kvs (m(k \<mapsto> conv v))"

text \<open>
  \<open>VerifyToken\<close>: the result code and the new state. On success the fresh map made for
  \<open>gw.allocServers[account]\<close> is filled by the loop (the write lock is held throughout).
\<close>

definition VerifyToken ::
  "('nid, 'node, 'sid) common_context \<Rightarrow> ('nid, 'node) gateway \<Rightarrow> string \<Rightarrow> string
     \<Rightarrow> u32 \<times> ('nid, 'node) gateway" where
  "VerifyToken ctx gw account token =
     (case LoadToken ctx account of
        Inl err \<Rightarrow> (2, gw\<lparr>logged := logged gw @ [LoadFailed err account]\<rparr>)
      | Inr tmpTokenObj \<Rightarrow>
          if token \<noteq> Token tmpTokenObj
          then (1, gw\<lparr>logged := logged gw @
                        [TokenVerificationFailed (Token tmpTokenObj) token account]\<rparr>)
          else (0, gw\<lparr>allocServers := (allocServers gw)
                        (account \<mapsto> assignAll (ServerID2NodeID ctx)
                                      (AllocServers tmpTokenObj) Map.empty)\<rparr>))"

text \<open>\<open>OnLogout\<close>: \<open>delete(gw.allocServers, account)\<close>.\<close>

definition OnLogout :: "('nid, 'node) gateway \<Rightarrow> string \<Rightarrow> ('nid, 'node) gateway" where
  "OnLogout gw account = gw\<lparr>allocServers := (allocServers gw)(account := None)\<rparr>"

text \<open>
  The function literal of \<open>OnRecvFromClient\<close> that reads the affinity table under the read
  lock: the sticky node identifier (or \<open>nil\<close>), or the error for an unknown account.
\<close>

definition lookupAlloc ::
  "('nid, 'node) gateway \<Rightarrow> string \<Rightarrow> u32 \<Rightarrow> u32 \<Rightarrow> log_entry + 'nid option" where
  "lookupAlloc gw account cmd nodeType =
     (case allocServers gw account of
        Some v \<Rightarrow> (case v nodeType of Some id' \<Rightarrow> Inr (Some id') | None \<Rightarrow> Inr None)
      | None \<Rightarrow> Inl (NoServerInformation account cmd))"

text \<open>
  \<open>OnRecvFromClient\<close>: a panic, or the named result \<open>done\<close> with the new state.
\<close>

definition OnRecvFromClient ::
  "('nid, 'node, 'sid) common_context \<Rightarrow> ('nid, 'node) gateway \<Rightarrow> string \<Rightarrow> u32 \<Rightarrow> u8 list
     \<Rightarrow> go_panic + (bool \<times> ('nid, 'node) gateway)" where
  "OnRecvFromClient ctx gw account cmd data =
     (case go_div cmd (MsgCmdOffset ctx) of
        Inl p \<Rightarrow> Inl p
      | Inr nodeType \<Rightarrow>
          if nodeType \<ge> NodeTypeSize ctx \<or> nodeType \<le> Gateway ctx
          then Inr (False, gw\<lparr>logged := logged gw @ [WrongMessageNumber cmd account]\<rparr>)
          else
            (case lookupAlloc gw account cmd nodeType of
               Inl err \<Rightarrow> Inr (False, gw\<lparr>logged := logged gw @ [err]\<rparr>)
             | Inr nodeID \<Rightarrow>
                 (case (case nodeID of
                          Some id' \<Rightarrow> GetNode ctx id'
                        | None \<Rightarrow> GetNodeOne ctx nodeType) of
                    None \<Rightarrow>
                      Inr (False, gw\<lparr>logged := logged gw @
                                       [TargetServerNotFound cmd account nodeType]\<rparr>)
                  | Some target \<Rightarrow>
                      (case go_mod cmd (MsgCmdOffset ctx) of
                         Inl p \<Rightarrow> Inl p
                       | Inr localCmd \<Rightarrow>
                           let msg = \<lparr>Account = account, CMD = localCmd, Data = [] @ data\<rparr>;
                               gw' = gw\<lparr>relayed := relayed gw @
                                         [(target, CMD_GW_RELAY_CLIENT_MSG ctx, msg)]\<rparr>
                           in if SendMsg ctx target (CMD_GW_RELAY_CLIENT_MSG ctx) msg = False
                              then Inr (True, gw'\<lparr>logged := logged gw' @
                                         [SendingToTargetFailed cmd account nodeType]\<rparr>)
                              else Inr (True, gw')))))"

section \<open>Client send facade\<close>

text \<open>
  The collaborators of the facade: \<open>gotcp.Encode\<close> (\<open>Inl\<close> carries its error) and
  \<open>ctx.Node.SendMsgToClient\<close>, which acts on the transport \<open>'w\<close>.
\<close>

record ('m, 'w) send_context =
  Encode :: "u64 \<Rightarrow> 'm \<Rightarrow> string + (u8 list \<times> u8)"
  Node_SendMsgToClient :: "'w \<Rightarrow> string \<Rightarrow> u64 \<Rightarrow> u8 list \<Rightarrow> bool \<times> 'w"

text \<open>The \<open>error\<close> values the facade returns.\<close>

datatype send_error = EncodeError string | SendingMessageFailed string u64

definition SendMsgToClient ::
  "('m, 'w) send_context \<Rightarrow> 'w \<Rightarrow> string \<Rightarrow> u64 \<Rightarrow> 'm
     \<Rightarrow> (bool \<times> send_error option) \<times> 'w" where
  "SendMsgToClient ctx w account cmd msg =
     (case Encode ctx cmd msg of
        Inl err \<Rightarrow> ((False, Some (EncodeError err)), w)
      | Inr (data, flag) \<Rightarrow>
          (case Node_SendMsgToClient ctx w account cmd (data @ [flag]) of
             (True, w') \<Rightarrow> ((True, None), w')
           | (False, w') \<Rightarrow> ((False, Some (SendingMessageFailed account cmd)), w')))"

definition SendMsgToClientByRoleName ::
  "('m, 'w) send_context \<Rightarrow> 'w \<Rightarrow> string \<Rightarrow> u64 \<Rightarrow> 'm
     \<Rightarrow> (bool \<times> send_error option) \<times> 'w" where
  "SendMsgToClientByRoleName ctx w roleName cmd msg =
     (let account = '''' in SendMsgToClient ctx w account cmd msg)"

section \<open>A concrete deployment\<close>

text \<open>
  The gateway has type 3 and the valid service types are 4 to 7. The registry has one
  live lobby node with identifier 41 and no live node 50; the token store holds records
  for \<open>alice\<close> and \<open>dave\<close>; the backend send always reports failure; the gateway
  already holds affinity entries for \<open>alice\<close> and \<open>bob\<close>.
\<close>

definition demo_ctx :: "(nat, string, nat) common_context" where
  "demo_ctx =
     \<lparr>MsgCmdOffset = 1000, NodeTypeSize = 8, Gateway = 3, CMD_GW_RELAY_CLIENT_MSG = 7,
      GetNode = (\<lambda>n. if n = 41 then Some ''lobby-41'' else None),
      GetNodeOne = (\<lambda>t. if t = 4 then Some ''lobby-42''
                         else if t = 5 then Some ''chat-51'' else None),
      SendMsg = (\<lambda>target c msg. False),
      LoadToken = (\<lambda>a. if a = ''alice''
                          then Inr \<lparr>Token = ''secret'', AllocServers = [(4, 41), (5, 50)]\<rparr>
                        else if a = ''dave''
                          then Inr \<lparr>Token = ''pw'', AllocServers = [(3, 41)]\<rparr>
                        else Inl ''record not found''),
      ServerID2NodeID = (\<lambda>s. s)\<rparr>"

definition demo_gw :: "(nat, string) gateway" where
  "demo_gw =
     \<lparr>allocServers = [''alice'' \<mapsto> [6 \<mapsto> 66, 5 \<mapsto> 50], ''bob'' \<mapsto> [6 \<mapsto> 60]],
      logged = [], relayed = []\<rparr>"

text \<open>
  The same deployment with a live node of the gateway's own type 3 in the registry.
\<close>

definition demo_ctx_gateway_live :: "(nat, string, nat) common_context" where
  "demo_ctx_gateway_live =
     demo_ctx\<lparr>GetNodeOne := (\<lambda>t. if t = 3 then Some ''gateway-31'' else GetNodeOne demo_ctx t)\<rparr>"

section \<open>Command namespace: properties\<close>

lemma go_mod_of_div: "go_div cmd offset = Inr T \<Longrightarrow> go_mod cmd offset = Inr (cmd mod offset)"
  by (auto simp: go_div_def go_mod_def split: if_splits)

lemma decode_Inr:
  "decode offset cmd = Inr (T, l) \<Longrightarrow> go_div cmd offset = Inr T \<and> l = cmd mod offset"
  by (auto simp: decode_def go_div_def go_mod_def split: sum.splits if_splits)

lemma unat_encode:
  assumes "unat serviceType * unat offset + unat localCmd < 2 ^ 32"
  shows "unat (encode offset serviceType localCmd)
         = unat serviceType * unat offset + unat localCmd"
proof -
  have "unat (encode offset serviceType localCmd)
        = (unat serviceType * unat offset + unat localCmd) mod 2 ^ 32"
    by (simp add: encode_def unat_word_ariths mod_add_left_eq)
  with assms show ?thesis by simp
qed

text \<open>
  C4, as stated: decoding an encoded command gives back the pair whenever
  \<open>localCmd < OFFSET\<close>. On 32-bit commands this fails when the product wraps around:
  with \<open>OFFSET = 1000\<close>, service type 4294968 and local command 0 encode to 704, which
  decodes to service type 0.
\<close>

theorem decode_encode_overflow:
  "(0::u32) < 1000 \<and> decode 1000 (encode 1000 4294968 0) = Inr (0, 704)
   \<and> decode 1000 (encode 1000 4294968 0) \<noteq> Inr (4294968, 0)"
  by (simp add: decode_def encode_def go_div_def go_mod_def)

text \<open>
  C4, amended: whenever \<open>localCmd < OFFSET\<close> and \<open>serviceType * OFFSET + localCmd\<close>
  fits in 32 bits, decoding the encoded command returns (without a panic) exactly
  \<open>(serviceType, localCmd)\<close>.
\<close>

theorem decode_encode:
  assumes "localCmd < offset"
    and "unat serviceType * unat offset + unat localCmd < 2 ^ 32"
  shows "decode offset (encode offset serviceType localCmd) = Inr (serviceType, localCmd)"
proof -
  from assms(1) have nz: "offset \<noteq> 0" by auto
  from assms(1) have lt: "unat localCmd < unat offset" by (simp add: word_less_nat_alt)
  let ?c = "encode offset serviceType localCmd"
  have u: "unat ?c = unat serviceType * unat offset + unat localCmd"
    by (rule unat_encode [OF assms(2)])
  have "unat (?c div offset) = unat serviceType"
    using lt by (simp add: unat_div u)
  then have d: "?c div offset = serviceType" by (simp add: word_unat_eq_iff)
  have "unat (?c mod offset) = unat localCmd"
    using lt by (simp add: unat_mod u)
  then have m: "?c mod offset = localCmd" by (simp add: word_unat_eq_iff)
  show ?thesis using nz d m by (simp add: decode_def go_div_def go_mod_def)
qed

theorem decode_encode_witness:
  "(1::u32) < 1000 \<and> unat (2::u32) * unat (1000::u32) + unat (1::u32) < 2 ^ 32
   \<and> encode 1000 2 1 = 2001 \<and> decode 1000 (encode 1000 2 1) = Inr (2, 1)"
  using decode_encode [of 1 1000 2] by (simp add: encode_def)

section \<open>The relay dispatcher, branch by branch\<close>

lemma OnRecv_invalid:
  assumes "go_div cmd (MsgCmdOffset ctx) = Inr T"
    and "T \<le> Gateway ctx \<or> NodeTypeSize ctx \<le> T"
  shows "OnRecvFromClient ctx gw account cmd data
         = Inr (False, gw\<lparr>logged := logged gw @ [WrongMessageNumber cmd account]\<rparr>)"
  using assms by (auto simp: OnRecvFromClient_def)

lemma OnRecv_unknown:
  assumes "go_div cmd (MsgCmdOffset ctx) = Inr T"
    and "Gateway ctx < T" and "T < NodeTypeSize ctx"
    and "allocServers gw account = None"
  shows "OnRecvFromClient ctx gw account cmd data
         = Inr (False, gw\<lparr>logged := logged gw @ [NoServerInformation account cmd]\<rparr>)"
  using assms by (auto simp: OnRecvFromClient_def lookupAlloc_def)

lemma OnRecv_no_target:
  assumes "go_div cmd (MsgCmdOffset ctx) = Inr T"
    and "Gateway ctx < T" and "T < NodeTypeSize ctx"
    and "allocServers gw account = Some v"
    and "(case v T of Some id' \<Rightarrow> GetNode ctx id' | None \<Rightarrow> GetNodeOne ctx T) = None"
  shows "OnRecvFromClient ctx gw account cmd data
         = Inr (False, gw\<lparr>logged := logged gw @ [TargetServerNotFound cmd account T]\<rparr>)"
  using assms by (auto simp: OnRecvFromClient_def lookupAlloc_def split: option.splits)

lemma OnRecv_forward:
  assumes "go_div cmd (MsgCmdOffset ctx) = Inr T"
    and "Gateway ctx < T" and "T < NodeTypeSize ctx"
    and "allocServers gw account = Some v"
    and "(case v T of Some id' \<Rightarrow> GetNode ctx id' | None \<Rightarrow> GetNodeOne ctx T) = Some target"
  shows "\<exists>gw'. OnRecvFromClient ctx gw account cmd data = Inr (True, gw')
           \<and> allocServers gw' = allocServers gw
           \<and> relayed gw' = relayed gw @
               [(target, CMD_GW_RELAY_CLIENT_MSG ctx,
                 \<lparr>Account = account, CMD = cmd mod MsgCmdOffset ctx, Data = data\<rparr>)]
           \<and> logged gw' = logged gw @
               (if SendMsg ctx target (CMD_GW_RELAY_CLIENT_MSG ctx)
                     \<lparr>Account = account, CMD = cmd mod MsgCmdOffset ctx, Data = data\<rparr>
                then [] else [SendingToTargetFailed cmd account T])"
  using assms go_mod_of_div [OF assms(1)]
  by (auto simp: OnRecvFromClient_def lookupAlloc_def Let_def split: option.splits)

section \<open>Claims about the relay dispatcher\<close>

text \<open>
  C1, as stated: a message whose decoded service type passes validation is always
  claimed. It is not: \<open>bob\<close> sends command 7001, service type 7 is valid, no node of
  type 7 is live, and \<open>OnRecvFromClient\<close> returns \<open>false\<close>.
\<close>

theorem OnRecvFromClient_valid_not_done:
  "go_div 7001 (MsgCmdOffset demo_ctx) = Inr 7
   \<and> Gateway demo_ctx < 7 \<and> 7 < NodeTypeSize demo_ctx
   \<and> OnRecvFromClient demo_ctx demo_gw ''bob'' 7001 [9]
       = Inr (False, demo_gw\<lparr>logged := [TargetServerNotFound 7001 ''bob'' 7]\<rparr>)"
  by (simp add: OnRecvFromClient_def lookupAlloc_def go_div_def demo_ctx_def demo_gw_def)

text \<open>
  C1, amended: for every inbound message whose command decodes, \<open>OnRecvFromClient\<close>
  returns, and it returns \<open>true\<close> exactly when the decoded service type passes
  validation, the account has an entry in the affinity table and a target node is
  resolved (the sticky node if there is one, else any node of the type). The result of
  the send does not enter: the message is claimed even if the send fails.
\<close>

theorem OnRecvFromClient_done_iff:
  assumes "go_div cmd (MsgCmdOffset ctx) = Inr T"
  shows "\<exists>done gw'. OnRecvFromClient ctx gw account cmd data = Inr (done, gw')
           \<and> (done \<longleftrightarrow> Gateway ctx < T \<and> T < NodeTypeSize ctx
                 \<and> (\<exists>v target. allocServers gw account = Some v
                       \<and> (case v T of Some id' \<Rightarrow> GetNode ctx id'
                                    | None \<Rightarrow> GetNodeOne ctx T) = Some target))"
proof (cases "T \<le> Gateway ctx \<or> NodeTypeSize ctx \<le> T")
  case True
  with OnRecv_invalid [OF assms True] show ?thesis by auto
next
  case valid: False
  then have g: "Gateway ctx < T" and s: "T < NodeTypeSize ctx" by auto
  show ?thesis
  proof (cases "allocServers gw account")
    case None
    with OnRecv_unknown [OF assms g s None] show ?thesis by auto
  next
    case (Some v)
    show ?thesis
    proof (cases "case v T of Some id' \<Rightarrow> GetNode ctx id' | None \<Rightarrow> GetNodeOne ctx T")
      case None
      with OnRecv_no_target [OF assms g s Some None] Some show ?thesis by auto
    next
      case (Some target)
      from OnRecv_forward [OF assms g s \<open>allocServers gw account = Some v\<close> Some]
      obtain gw' where "OnRecvFromClient ctx gw account cmd data = Inr (True, gw')" by blast
      with g s \<open>allocServers gw account = Some v\<close> Some show ?thesis by auto
    qed
  qed
qed

theorem OnRecvFromClient_done_iff_witness:
  "go_div 5001 (MsgCmdOffset demo_ctx) = Inr 5
   \<and> SendMsg demo_ctx ''chat-51'' 7 \<lparr>Account = ''bob'', CMD = 1, Data = [9]\<rparr> = False
   \<and> (\<exists>gw'. OnRecvFromClient demo_ctx demo_gw ''bob'' 5001 [9] = Inr (True, gw'))"
proof -
  have h: "go_div 5001 (MsgCmdOffset demo_ctx) = Inr 5"
    by (simp add: go_div_def demo_ctx_def)
  have f: "SendMsg demo_ctx ''chat-51'' 7 \<lparr>Account = ''bob'', CMD = 1, Data = [9]\<rparr> = False"
    by (simp add: demo_ctx_def)
  from OnRecvFromClient_done_iff [OF h, of demo_gw "''bob''" "[9]"]
  obtain done' gw' where e: "OnRecvFromClient demo_ctx demo_gw ''bob'' 5001 [9] = Inr (done', gw')"
    and d: "done' \<longleftrightarrow> Gateway demo_ctx < 5 \<and> 5 < NodeTypeSize demo_ctx
              \<and> (\<exists>v target. allocServers demo_gw ''bob'' = Some v
                    \<and> (case v 5 of Some id' \<Rightarrow> GetNode demo_ctx id'
                                 | None \<Rightarrow> GetNodeOne demo_ctx 5) = Some target)"
    by blast
  have "done'" unfolding d by (simp add: demo_ctx_def demo_gw_def)
  with e have "\<exists>gw'. OnRecvFromClient demo_ctx demo_gw ''bob'' 5001 [9] = Inr (True, gw')"
    by auto
  with h f show ?thesis by simp
qed

text \<open>
  C2, as stated: whenever the account has an entry without an assignment for the decoded
  service type, the dispatcher falls back to a live node of that type. Not for every
  decoded type: \<open>bob\<close> has an entry without type 3, the registry has a live node of
  type 3, command 3005 decodes to type 3, the gateway's own type, and the validation
  drops the message before the affinity table or the registry is read.
\<close>

theorem relay_fallback_gateway_type:
  "decode (MsgCmdOffset demo_ctx_gateway_live) 3005 = Inr (3, 5)
   \<and> allocServers demo_gw ''bob'' = Some [6 \<mapsto> 60]
   \<and> [6 \<mapsto> 60] (3::u32) = (None :: nat option)
   \<and> GetNodeOne demo_ctx_gateway_live 3 = Some ''gateway-31''
   \<and> OnRecvFromClient demo_ctx_gateway_live demo_gw ''bob'' 3005 [9]
       = Inr (False, demo_gw\<lparr>logged := [WrongMessageNumber 3005 ''bob'']\<rparr>)
   \<and> relayed (demo_gw\<lparr>logged := [WrongMessageNumber 3005 ''bob'']\<rparr>) = []"
  by (simp add: OnRecvFromClient_def decode_def go_div_def go_mod_def
      demo_ctx_gateway_live_def demo_ctx_def demo_gw_def)

text \<open>
  C2, amended: for a message whose decoded service type passes validation, if the
  account has no entry in the affinity table, the message is dropped and the error
  reported, whatever the registry holds; if the account has an entry without an
  assignment for the service type, the target is the node that \<open>GetNodeOne\<close> gives for
  that type (and the message is dropped as a routing miss when it gives none).
\<close>

theorem relay_unknown_account_or_fallback:
  assumes "decode (MsgCmdOffset ctx) cmd = Inr (T, localCmd)"
    and "Gateway ctx < T" and "T < NodeTypeSize ctx"
  shows "(allocServers gw account = None \<longrightarrow>
            OnRecvFromClient ctx gw account cmd data
            = Inr (False, gw\<lparr>logged := logged gw @ [NoServerInformation account cmd]\<rparr>))
       \<and> (\<forall>v. allocServers gw account = Some v \<and> v T = None \<longrightarrow>
            (case GetNodeOne ctx T of
               None \<Rightarrow>
                 OnRecvFromClient ctx gw account cmd data
                 = Inr (False, gw\<lparr>logged := logged gw @
                                   [TargetServerNotFound cmd account T]\<rparr>)
             | Some target \<Rightarrow>
                 (\<exists>gw'. OnRecvFromClient ctx gw account cmd data = Inr (True, gw')
                    \<and> relayed gw' = relayed gw @
                        [(target, CMD_GW_RELAY_CLIENT_MSG ctx,
                          \<lparr>Account = account, CMD = localCmd, Data = data\<rparr>)])))"
proof -
  from decode_Inr [OF assms(1)]
  have d: "go_div cmd (MsgCmdOffset ctx) = Inr T" and l: "localCmd = cmd mod MsgCmdOffset ctx"
    by simp_all
  have unknown: "allocServers gw account = None \<longrightarrow>
            OnRecvFromClient ctx gw account cmd data
            = Inr (False, gw\<lparr>logged := logged gw @ [NoServerInformation account cmd]\<rparr>)"
    using OnRecv_unknown [OF d assms(2) assms(3)] by blast
  have fallback: "case GetNodeOne ctx T of
               None \<Rightarrow>
                 OnRecvFromClient ctx gw account cmd data
                 = Inr (False, gw\<lparr>logged := logged gw @
                                   [TargetServerNotFound cmd account T]\<rparr>)
             | Some target \<Rightarrow>
                 (\<exists>gw'. OnRecvFromClient ctx gw account cmd data = Inr (True, gw')
                    \<and> relayed gw' = relayed gw @
                        [(target, CMD_GW_RELAY_CLIENT_MSG ctx,
                          \<lparr>Account = account, CMD = localCmd, Data = data\<rparr>)])"
    if e: "allocServers gw account = Some v" and n: "v T = None" for v
  proof (cases "GetNodeOne ctx T")
    case None
    then have "(case v T of Some id' \<Rightarrow> GetNode ctx id' | None \<Rightarrow> GetNodeOne ctx T) = None"
      using n by simp
    from OnRecv_no_target [OF d assms(2) assms(3) e this] None show ?thesis by simp
  next
    case (Some target)
    then have "(case v T of Some id' \<Rightarrow> GetNode ctx id' | None \<Rightarrow> GetNodeOne ctx T)
               = Some target"
      using n by simp
    from OnRecv_forward [OF d assms(2) assms(3) e this] Some l show ?thesis by auto
  qed
  from unknown fallback show ?thesis by blast
qed

theorem relay_unknown_account_or_fallback_witness:
  "decode (MsgCmdOffset demo_ctx) 4001 = Inr (4, 1)
   \<and> Gateway demo_ctx < 4 \<and> 4 < NodeTypeSize demo_ctx
   \<and> allocServers demo_gw ''carol'' = None
   \<and> GetNodeOne demo_ctx 4 = Some ''lobby-42''
   \<and> OnRecvFromClient demo_ctx demo_gw ''carol'' 4001 [9]
       = Inr (False, demo_gw\<lparr>logged := logged demo_gw @ [NoServerInformation ''carol'' 4001]\<rparr>)
   \<and> allocServers demo_gw ''bob'' = Some [6 \<mapsto> 60] \<and> [6 \<mapsto> 60] (4::u32) = (None :: nat option)
   \<and> (\<exists>gw'. OnRecvFromClient demo_ctx demo_gw ''bob'' 4001 [9] = Inr (True, gw')
          \<and> relayed gw' = relayed demo_gw @
               [(''lobby-42'', CMD_GW_RELAY_CLIENT_MSG demo_ctx,
                 \<lparr>Account = ''bob'', CMD = 1, Data = [9]\<rparr>)])"
proof -
  have h: "decode (MsgCmdOffset demo_ctx) 4001 = Inr (4, 1)"
    by (simp add: decode_def go_div_def go_mod_def demo_ctx_def)
  have g: "Gateway demo_ctx < 4" and s: "4 < NodeTypeSize demo_ctx"
    by (simp_all add: demo_ctx_def)
  have c: "allocServers demo_gw ''carol'' = None"
    and b: "allocServers demo_gw ''bob'' = Some [6 \<mapsto> 60]"
    and n: "[6 \<mapsto> 60] (4::u32) = (None :: nat option)"
    by (simp_all add: demo_gw_def)
  have o: "GetNodeOne demo_ctx 4 = Some ''lobby-42''" by (simp add: demo_ctx_def)
  show ?thesis
    using h g s c b n o
      relay_unknown_account_or_fallback [OF h g s, of demo_gw "''carol''" "[9]"]
      relay_unknown_account_or_fallback [OF h g s, of demo_gw "''bob''" "[9]"]
    by simp
qed

text \<open>
  C9: if the affinity table gives a sticky node for the account and service type and
  \<open>GetNode\<close> gives nothing for it, the message is dropped: \<open>OnRecvFromClient\<close> returns
  \<open>false\<close>, sends nothing and reports the miss, whatever \<open>GetNodeOne\<close> would give.
\<close>

theorem sticky_node_not_live_dropped:
  assumes "decode (MsgCmdOffset ctx) cmd = Inr (T, localCmd)"
    and "Gateway ctx < T" and "T < NodeTypeSize ctx"
    and "allocServers gw account = Some v" and "v T = Some nodeID"
    and "GetNode ctx nodeID = None"
  shows "OnRecvFromClient ctx gw account cmd data
         = Inr (False, gw\<lparr>logged := logged gw @ [TargetServerNotFound cmd account T]\<rparr>)"
proof -
  from decode_Inr [OF assms(1)] have d: "go_div cmd (MsgCmdOffset ctx) = Inr T" by simp
  have "(case v T of Some id' \<Rightarrow> GetNode ctx id' | None \<Rightarrow> GetNodeOne ctx T) = None"
    using assms(5,6) by simp
  from OnRecv_no_target [OF d assms(2) assms(3) assms(4) this] show ?thesis .
qed

theorem sticky_node_not_live_dropped_witness:
  "decode (MsgCmdOffset demo_ctx) 5002 = Inr (5, 2)
   \<and> Gateway demo_ctx < 5 \<and> 5 < NodeTypeSize demo_ctx
   \<and> allocServers demo_gw ''alice'' = Some [6 \<mapsto> 66, 5 \<mapsto> 50]
   \<and> [6 \<mapsto> 66, 5 \<mapsto> 50] (5::u32) = Some (50::nat)
   \<and> GetNode demo_ctx 50 = None \<and> GetNodeOne demo_ctx 5 = Some ''chat-51''
   \<and> OnRecvFromClient demo_ctx demo_gw ''alice'' 5002 [1, 2]
       = Inr (False, demo_gw\<lparr>logged := logged demo_gw @
                                [TargetServerNotFound 5002 ''alice'' 5]\<rparr>)"
proof -
  have h: "decode (MsgCmdOffset demo_ctx) 5002 = Inr (5, 2)"
    by (simp add: decode_def go_div_def go_mod_def demo_ctx_def)
  have g: "Gateway demo_ctx < 5" and s: "5 < NodeTypeSize demo_ctx"
    by (simp_all add: demo_ctx_def)
  have a: "allocServers demo_gw ''alice'' = Some [6 \<mapsto> 66, 5 \<mapsto> 50]"
    and n: "[6 \<mapsto> 66, 5 \<mapsto> 50] (5::u32) = Some (50::nat)"
    by (simp_all add: demo_gw_def)
  have r: "GetNode demo_ctx 50 = None" and o: "GetNodeOne demo_ctx 5 = Some ''chat-51''"
    by (simp_all add: demo_ctx_def)
  show ?thesis
    using h g s a n r o sticky_node_not_live_dropped [OF h g s a n r, of "[1, 2]"]
    by simp
qed

text \<open>
  C7, as stated: the message is dropped exactly when the decoded service type is out of
  range. It is also dropped when the type is valid: \<open>carol\<close> has no affinity entry,
  sends command 4001 (service type 4, valid), and \<open>OnRecvFromClient\<close> returns \<open>false\<close>
  and sends nothing.
\<close>

theorem OnRecvFromClient_valid_dropped:
  "go_div 4001 (MsgCmdOffset demo_ctx) = Inr 4
   \<and> \<not> (4 \<le> Gateway demo_ctx \<or> NodeTypeSize demo_ctx \<le> 4)
   \<and> OnRecvFromClient demo_ctx demo_gw ''carol'' 4001 [9]
       = Inr (False, demo_gw\<lparr>logged := [NoServerInformation ''carol'' 4001]\<rparr>)
   \<and> relayed (demo_gw\<lparr>logged := [NoServerInformation ''carol'' 4001]\<rparr>) = relayed demo_gw"
  by (simp add: OnRecvFromClient_def lookupAlloc_def go_div_def demo_ctx_def demo_gw_def)

text \<open>
  C7, amended: whenever the decoded service type is at most the gateway's type or at
  least \<open>NodeTypeSize\<close>, the message is dropped: nothing is sent, \<open>false\<close> is returned
  and the event is reported. Over all messages, a drop (nothing sent, \<open>false\<close>
  returned) happens exactly when the type is out of range, or the account has no
  affinity entry, or no target node is found. Every drop writes one log line, returns
  without a panic and leaves the affinity table as it was.
\<close>

theorem OnRecvFromClient_dropped_iff:
  assumes "go_div cmd (MsgCmdOffset ctx) = Inr T"
  shows "(T \<le> Gateway ctx \<or> NodeTypeSize ctx \<le> T \<longrightarrow>
            OnRecvFromClient ctx gw account cmd data
            = Inr (False, gw\<lparr>logged := logged gw @ [WrongMessageNumber cmd account]\<rparr>))
       \<and> (\<exists>done gw'. OnRecvFromClient ctx gw account cmd data = Inr (done, gw')
             \<and> allocServers gw' = allocServers gw
             \<and> ((\<not> done \<and> relayed gw' = relayed gw) \<longleftrightarrow>
                   (T \<le> Gateway ctx \<or> NodeTypeSize ctx \<le> T
                    \<or> allocServers gw account = None
                    \<or> (\<exists>v. allocServers gw account = Some v
                          \<and> (case v T of Some id' \<Rightarrow> GetNode ctx id'
                                       | None \<Rightarrow> GetNodeOne ctx T) = None)))
             \<and> (\<not> done \<longrightarrow> (\<exists>e. logged gw' = logged gw @ [e])))"
proof (cases "T \<le> Gateway ctx \<or> NodeTypeSize ctx \<le> T")
  case True
  with OnRecv_invalid [OF assms True] show ?thesis by auto
next
  case valid: False
  then have g: "Gateway ctx < T" and s: "T < NodeTypeSize ctx" by auto
  show ?thesis
  proof (cases "allocServers gw account")
    case None
    with OnRecv_unknown [OF assms g s None] valid show ?thesis by auto
  next
    case (Some v)
    show ?thesis
    proof (cases "case v T of Some id' \<Rightarrow> GetNode ctx id' | None \<Rightarrow> GetNodeOne ctx T")
      case None
      with OnRecv_no_target [OF assms g s Some None] Some valid show ?thesis by auto
    next
      case target: (Some target)
      from OnRecv_forward [OF assms g s Some target]
      obtain gw' where "OnRecvFromClient ctx gw account cmd data = Inr (True, gw')"
        and "allocServers gw' = allocServers gw" by blast
      with valid Some target show ?thesis by auto
    qed
  qed
qed

theorem OnRecvFromClient_dropped_iff_witness:
  "go_div 3005 (MsgCmdOffset demo_ctx) = Inr 3
   \<and> (3 \<le> Gateway demo_ctx \<or> NodeTypeSize demo_ctx \<le> 3)
   \<and> OnRecvFromClient demo_ctx demo_gw ''alice'' 3005 [9]
       = Inr (False, demo_gw\<lparr>logged := logged demo_gw @ [WrongMessageNumber 3005 ''alice'']\<rparr>)"
proof -
  have h: "go_div 3005 (MsgCmdOffset demo_ctx) = Inr 3"
    by (simp add: go_div_def demo_ctx_def)
  have i: "3 \<le> Gateway demo_ctx \<or> NodeTypeSize demo_ctx \<le> 3"
    by (simp add: demo_ctx_def)
  from OnRecvFromClient_dropped_iff [OF h, of demo_gw "''alice''" "[9]"] h i
  show ?thesis by blast
qed

text \<open>
  C8: whenever \<open>OnRecvFromClient\<close> forwards a message, it makes exactly one call of
  \<open>SendMsg\<close>, under the command code \<open>CMD_GW_RELAY_CLIENT_MSG\<close>, and the envelope
  carries the input account, the wire command modulo the offset and the input payload,
  byte for byte.
\<close>

theorem relay_envelope:
  assumes "OnRecvFromClient ctx gw account cmd data = Inr (done, gw')"
    and "relayed gw' \<noteq> relayed gw"
  shows "\<exists>target. relayed gw' = relayed gw @
             [(target, CMD_GW_RELAY_CLIENT_MSG ctx,
               \<lparr>Account = account, CMD = cmd mod MsgCmdOffset ctx, Data = data\<rparr>)]"
proof -
  from assms(1) obtain T where d: "go_div cmd (MsgCmdOffset ctx) = Inr T"
    by (auto simp: OnRecvFromClient_def split: sum.splits)
  show ?thesis
  proof (cases "T \<le> Gateway ctx \<or> NodeTypeSize ctx \<le> T")
    case True
    with OnRecv_invalid [OF d True, of gw account data] assms show ?thesis by auto
  next
    case False
    then have g: "Gateway ctx < T" and s: "T < NodeTypeSize ctx" by auto
    show ?thesis
    proof (cases "allocServers gw account")
      case None
      with OnRecv_unknown [OF d g s None, of data] assms show ?thesis by auto
    next
      case (Some v)
      show ?thesis
      proof (cases "case v T of Some id' \<Rightarrow> GetNode ctx id' | None \<Rightarrow> GetNodeOne ctx T")
        case None
        with OnRecv_no_target [OF d g s Some None, of data] assms show ?thesis by auto
      next
        case target: (Some target)
        from OnRecv_forward [OF d g s Some target, of data] assms(1)
        show ?thesis by auto
      qed
    qed
  qed
qed

theorem relay_envelope_witness:
  "OnRecvFromClient demo_ctx demo_gw ''bob'' 4321 [222, 173, 0]
     = Inr (True, demo_gw\<lparr>relayed := [(''lobby-42'', 7,
                \<lparr>Account = ''bob'', CMD = 321, Data = [222, 173, 0]\<rparr>)],
              logged := [SendingToTargetFailed 4321 ''bob'' 4]\<rparr>)
   \<and> relayed (demo_gw\<lparr>relayed := [(''lobby-42'', 7,
                \<lparr>Account = ''bob'', CMD = 321, Data = [222, 173, 0]\<rparr>)],
              logged := [SendingToTargetFailed 4321 ''bob'' 4]\<rparr>) \<noteq> relayed demo_gw
   \<and> (\<exists>target. relayed (demo_gw\<lparr>relayed := [(''lobby-42'', 7,
                \<lparr>Account = ''bob'', CMD = 321, Data = [222, 173, 0]\<rparr>)],
              logged := [SendingToTargetFailed 4321 ''bob'' 4]\<rparr>)
         = relayed demo_gw @ [(target, CMD_GW_RELAY_CLIENT_MSG demo_ctx,
             \<lparr>Account = ''bob'', CMD = 4321 mod MsgCmdOffset demo_ctx,
              Data = [222, 173, 0]\<rparr>)])"
proof -
  have e: "OnRecvFromClient demo_ctx demo_gw ''bob'' 4321 [222, 173, 0]
       = Inr (True, demo_gw\<lparr>relayed := [(''lobby-42'', 7,
                \<lparr>Account = ''bob'', CMD = 321, Data = [222, 173, 0]\<rparr>)],
              logged := [SendingToTargetFailed 4321 ''bob'' 4]\<rparr>)"
    by (simp add: OnRecvFromClient_def lookupAlloc_def go_div_def go_mod_def
        demo_ctx_def demo_gw_def)
  have n: "relayed (demo_gw\<lparr>relayed := [(''lobby-42'', 7,
                \<lparr>Account = ''bob'', CMD = 321, Data = [222, 173, 0]\<rparr>)],
              logged := [SendingToTargetFailed 4321 ''bob'' 4]\<rparr>) \<noteq> relayed demo_gw"
    by (simp add: demo_gw_def)
  from relay_envelope [OF e n] e n show ?thesis by blast
qed

section \<open>Authentication bootstrap and the affinity table\<close>

lemma assignAll_other: "k \<notin> fst ` set kvs \<Longrightarrow> assignAll conv kvs m k = m k"
  by (induction kvs arbitrary: m) auto

lemma assignAll_lookup:
  "distinct (map fst kvs) \<Longrightarrow> (k, v) \<in> set kvs \<Longrightarrow> assignAll conv kvs m k = Some (conv v)"
proof (induction kvs arbitrary: m)
  case Nil
  then show ?case by simp
next
  case (Cons kv kvs)
  obtain k' v' where kv: "kv = (k', v')" by (cases kv)
  show ?case
  proof (cases "(k, v) = kv")
    case True
    with Cons.prems kv have "k \<notin> fst ` set kvs" by auto
    then have "assignAll conv kvs (m(k \<mapsto> conv v)) k = (m(k \<mapsto> conv v)) k"
      by (rule assignAll_other)
    with True kv show ?thesis by auto
  next
    case False
    with Cons.prems have "(k, v) \<in> set kvs" and "distinct (map fst kvs)" by auto
    from Cons.IH [OF this(2) this(1)] kv show ?thesis by simp
  qed
qed

lemma VerifyToken_success:
  assumes "LoadToken ctx account = Inr tok" and "token = Token tok"
  shows "VerifyToken ctx gw account token
         = (0, gw\<lparr>allocServers := (allocServers gw)
                   (account \<mapsto> assignAll (ServerID2NodeID ctx) (AllocServers tok) Map.empty)\<rparr>)"
  using assms by (simp add: VerifyToken_def)

lemma VerifyToken_0:
  assumes "fst (VerifyToken ctx gw account token) = 0"
  shows "\<exists>tok. LoadToken ctx account = Inr tok \<and> token = Token tok"
  using assms by (auto simp: VerifyToken_def split: sum.splits if_splits)

text \<open>
  C5: \<open>VerifyToken\<close> returns 2 when loading the token fails and 1 when the presented
  token differs from the stored one; either way only a log line is written, and the
  affinity table is left as it was.
\<close>

theorem VerifyToken_failure:
  "(\<forall>err. LoadToken ctx account = Inl err \<longrightarrow>
      VerifyToken ctx gw account token
      = (2, gw\<lparr>logged := logged gw @ [LoadFailed err account]\<rparr>))
   \<and> (\<forall>tok. LoadToken ctx account = Inr tok \<and> token \<noteq> Token tok \<longrightarrow>
      VerifyToken ctx gw account token
      = (1, gw\<lparr>logged := logged gw @ [TokenVerificationFailed (Token tok) token account]\<rparr>))
   \<and> (fst (VerifyToken ctx gw account token) \<noteq> 0 \<longrightarrow>
      allocServers (snd (VerifyToken ctx gw account token)) = allocServers gw)"
  by (auto simp: VerifyToken_def split: sum.splits)

theorem VerifyToken_failure_witness:
  "LoadToken demo_ctx ''erin'' = Inl ''record not found''
   \<and> VerifyToken demo_ctx demo_gw ''erin'' ''secret''
       = (2, demo_gw\<lparr>logged := logged demo_gw @ [LoadFailed ''record not found'' ''erin'']\<rparr>)
   \<and> allocServers (snd (VerifyToken demo_ctx demo_gw ''erin'' ''secret'')) = allocServers demo_gw
   \<and> LoadToken demo_ctx ''alice'' = Inr \<lparr>Token = ''secret'', AllocServers = [(4, 41), (5, 50)]\<rparr>
   \<and> ''Secret'' \<noteq> Token \<lparr>Token = ''secret'', AllocServers = [(4, 41), (5, 50 :: nat)]\<rparr>
   \<and> VerifyToken demo_ctx demo_gw ''alice'' ''Secret''
       = (1, demo_gw\<lparr>logged := logged demo_gw @
                        [TokenVerificationFailed ''secret'' ''Secret'' ''alice'']\<rparr>)
   \<and> allocServers (snd (VerifyToken demo_ctx demo_gw ''alice'' ''Secret'')) = allocServers demo_gw
   \<and> allocServers demo_gw ''alice'' = Some [6 \<mapsto> 66, 5 \<mapsto> 50]"
proof -
  have l1: "LoadToken demo_ctx ''erin'' = Inl ''record not found''"
    by (simp add: demo_ctx_def)
  have l2: "LoadToken demo_ctx ''alice''
            = Inr \<lparr>Token = ''secret'', AllocServers = [(4, 41), (5, 50)]\<rparr>"
    by (simp add: demo_ctx_def)
  have n: "''Secret'' \<noteq> Token \<lparr>Token = ''secret'', AllocServers = [(4, 41), (5, 50 :: nat)]\<rparr>"
    by simp
  have a: "allocServers demo_gw ''alice'' = Some [6 \<mapsto> 66, 5 \<mapsto> 50]"
    by (simp add: demo_gw_def)
  from VerifyToken_failure [of demo_ctx "''erin''" demo_gw "''secret''"] l1
  have r1: "VerifyToken demo_ctx demo_gw ''erin'' ''secret''
       = (2, demo_gw\<lparr>logged := logged demo_gw @ [LoadFailed ''record not found'' ''erin'']\<rparr>)"
    and u1: "allocServers (snd (VerifyToken demo_ctx demo_gw ''erin'' ''secret''))
             = allocServers demo_gw"
    by simp_all
  from VerifyToken_failure [of demo_ctx "''alice''" demo_gw "''Secret''"] l2 n
  have r2: "VerifyToken demo_ctx demo_gw ''alice'' ''Secret''
       = (1, demo_gw\<lparr>logged := logged demo_gw @
                        [TokenVerificationFailed ''secret'' ''Secret'' ''alice'']\<rparr>)"
    and u2: "allocServers (snd (VerifyToken demo_ctx demo_gw ''alice'' ''Secret''))
             = allocServers demo_gw"
    by simp_all
  from l1 l2 n a r1 u1 r2 u2 show ?thesis by blast
qed

text \<open>
  C6: after a successful \<open>VerifyToken\<close> the lookup of the account gives, for every
  service type of the token's allocations, the node identifier allocated to it, and no
  node for every other service type (the earlier entry of the account is replaced, not
  merged); after \<open>OnLogout\<close> the account has no entry, so the lookup finds nothing for
  any service type; \<open>OnLogout\<close> is idempotent and changes nothing when the account has
  no entry. The entries of the token's allocations have distinct keys, being those of a
  Go map.
\<close>

theorem affinity_assign_lookup_remove:
  "(\<forall>tok. LoadToken ctx account = Inr tok \<and> token = Token tok
           \<and> distinct (map fst (AllocServers tok)) \<longrightarrow>
      fst (VerifyToken ctx gw account token) = 0
      \<and> (\<forall>T S. (T, S) \<in> set (AllocServers tok) \<longrightarrow>
            lookupAlloc (snd (VerifyToken ctx gw account token)) account cmd T
            = Inr (Some (ServerID2NodeID ctx S)))
      \<and> (\<forall>T. T \<notin> fst ` set (AllocServers tok) \<longrightarrow>
            lookupAlloc (snd (VerifyToken ctx gw account token)) account cmd T = Inr None))
   \<and> (\<forall>T. allocServers (OnLogout gw account) account = None
          \<and> lookupAlloc (OnLogout gw account) account cmd T
              = Inl (NoServerInformation account cmd))
   \<and> OnLogout (OnLogout gw account) account = OnLogout gw account
   \<and> (allocServers gw account = None \<longrightarrow> OnLogout gw account = gw)"
proof -
  let ?gw = "snd (VerifyToken ctx gw account token)"
  have c1: "fst (VerifyToken ctx gw account token) = 0
      \<and> (\<forall>T S. (T, S) \<in> set (AllocServers tok) \<longrightarrow>
            lookupAlloc ?gw account cmd T = Inr (Some (ServerID2NodeID ctx S)))
      \<and> (\<forall>T. T \<notin> fst ` set (AllocServers tok) \<longrightarrow>
            lookupAlloc ?gw account cmd T = Inr None)"
    if l: "LoadToken ctx account = Inr tok" and t: "token = Token tok"
      and d: "distinct (map fst (AllocServers tok))" for tok
  proof -
    have v: "VerifyToken ctx gw account token
         = (0, gw\<lparr>allocServers := (allocServers gw)
                   (account \<mapsto> assignAll (ServerID2NodeID ctx) (AllocServers tok) Map.empty)\<rparr>)"
      by (rule VerifyToken_success [OF l t])
    then have e: "allocServers ?gw account
                  = Some (assignAll (ServerID2NodeID ctx) (AllocServers tok) Map.empty)"
      by simp
    have "lookupAlloc ?gw account cmd T = Inr (Some (ServerID2NodeID ctx S))"
      if "(T, S) \<in> set (AllocServers tok)" for T S
      using assignAll_lookup [OF d that, of "ServerID2NodeID ctx" Map.empty] e
      by (simp add: lookupAlloc_def)
    moreover have "lookupAlloc ?gw account cmd T = Inr None"
      if "T \<notin> fst ` set (AllocServers tok)" for T
      using assignAll_other [OF that, of "ServerID2NodeID ctx" Map.empty] e
      by (simp add: lookupAlloc_def)
    moreover have "fst (VerifyToken ctx gw account token) = 0" using v by simp
    ultimately show ?thesis by blast
  qed
  have c3: "allocServers (OnLogout gw account) account = None
              \<and> lookupAlloc (OnLogout gw account) account cmd T
                  = Inl (NoServerInformation account cmd)" for T
    by (simp add: OnLogout_def lookupAlloc_def)
  have c4: "OnLogout (OnLogout gw account) account = OnLogout gw account"
    by (simp add: OnLogout_def)
  have c5: "OnLogout gw account = gw" if "allocServers gw account = None"
  proof -
    from that have "(allocServers gw)(account := None) = allocServers gw"
      by (simp add: fun_upd_idem)
    then show ?thesis by (simp add: OnLogout_def)
  qed
  from c1 c3 c4 c5 show ?thesis by blast
qed

theorem affinity_assign_lookup_remove_witness:
  "LoadToken demo_ctx ''alice'' = Inr \<lparr>Token = ''secret'', AllocServers = [(4, 41), (5, 50)]\<rparr>
   \<and> distinct (map fst [(4 :: u32, 41 :: nat), (5, 50)])
   \<and> lookupAlloc demo_gw ''alice'' 0 6 = Inr (Some 66)
   \<and> fst (VerifyToken demo_ctx demo_gw ''alice'' ''secret'') = 0
   \<and> lookupAlloc (snd (VerifyToken demo_ctx demo_gw ''alice'' ''secret'')) ''alice'' 0 4
       = Inr (Some 41)
   \<and> lookupAlloc (snd (VerifyToken demo_ctx demo_gw ''alice'' ''secret'')) ''alice'' 0 6
       = Inr None
   \<and> lookupAlloc (OnLogout demo_gw ''alice'') ''alice'' 0 6
       = Inl (NoServerInformation ''alice'' 0)
   \<and> allocServers demo_gw ''carol'' = None \<and> OnLogout demo_gw ''carol'' = demo_gw"
proof -
  let ?tok = "\<lparr>Token = ''secret'', AllocServers = [(4 :: u32, 41 :: nat), (5, 50)]\<rparr>"
  have l: "LoadToken demo_ctx ''alice'' = Inr ?tok" by (simp add: demo_ctx_def)
  have t: "''secret'' = Token ?tok" by simp
  have d: "distinct (map fst (AllocServers ?tok))" by simp
  have p: "lookupAlloc demo_gw ''alice'' 0 6 = Inr (Some 66)"
    by (simp add: lookupAlloc_def demo_gw_def)
  have c: "allocServers demo_gw ''carol'' = None" by (simp add: demo_gw_def)
  have m: "(4, 41) \<in> set (AllocServers ?tok)" by simp
  have n: "6 \<notin> fst ` set (AllocServers ?tok)" by simp
  have s: "ServerID2NodeID demo_ctx 41 = 41" by (simp add: demo_ctx_def)
  note A = affinity_assign_lookup_remove [of demo_ctx "''alice''" "''secret''" demo_gw 0]
  from A l t d have r0: "fst (VerifyToken demo_ctx demo_gw ''alice'' ''secret'') = 0"
    by blast
  from A l t d m s have r1:
    "lookupAlloc (snd (VerifyToken demo_ctx demo_gw ''alice'' ''secret'')) ''alice'' 0 4
       = Inr (Some 41)" by metis
  from A l t d n have r2:
    "lookupAlloc (snd (VerifyToken demo_ctx demo_gw ''alice'' ''secret'')) ''alice'' 0 6
       = Inr None" by blast
  from A have r3: "lookupAlloc (OnLogout demo_gw ''alice'') ''alice'' 0 6
       = Inl (NoServerInformation ''alice'' 0)" by blast
  from affinity_assign_lookup_remove [of demo_ctx "''carol''" "''x''" demo_gw 0] c
  have r4: "OnLogout demo_gw ''carol'' = demo_gw" by blast
  from l d p r0 r1 r2 r3 c r4 show ?thesis by simp
qed

text \<open>
  C3, as stated: after a successful \<open>VerifyToken\<close> whose allocations map service type T
  to a live node, a command decoding to T is forwarded to that node. Not for every T:
  the token of \<open>dave\<close> allocates the live node 41 for type 3, the gateway's own type;
  command 3005 decodes to type 3 and is dropped by the validation.
\<close>

theorem verify_then_relay_gateway_type:
  "LoadToken demo_ctx ''dave'' = Inr \<lparr>Token = ''pw'', AllocServers = [(3, 41)]\<rparr>
   \<and> fst (VerifyToken demo_ctx demo_gw ''dave'' ''pw'') = 0
   \<and> GetNode demo_ctx (ServerID2NodeID demo_ctx 41) = Some ''lobby-41''
   \<and> decode (MsgCmdOffset demo_ctx) 3005 = Inr (3, 5)
   \<and> OnRecvFromClient demo_ctx (snd (VerifyToken demo_ctx demo_gw ''dave'' ''pw''))
        ''dave'' 3005 [9]
       = Inr (False, (snd (VerifyToken demo_ctx demo_gw ''dave'' ''pw''))
                       \<lparr>logged := [WrongMessageNumber 3005 ''dave'']\<rparr>)
   \<and> relayed ((snd (VerifyToken demo_ctx demo_gw ''dave'' ''pw''))
                \<lparr>logged := [WrongMessageNumber 3005 ''dave'']\<rparr>) = []"
  by (simp add: VerifyToken_def OnRecvFromClient_def decode_def go_div_def go_mod_def
      demo_ctx_def demo_gw_def)

text \<open>
  C3, amended: if \<open>VerifyToken\<close> succeeds with a token whose allocations map service
  type T to node N, T passes the validation of \<open>OnRecvFromClient\<close> and the registry
  reports N live, then a following \<open>OnRecvFromClient\<close> of that account with a command
  decoding to T is claimed and forwarded to exactly the node the registry gives for N.
\<close>

theorem verify_then_relay_sticky:
  assumes "LoadToken ctx account = Inr tok"
    and "fst (VerifyToken ctx gw account token) = 0"
    and "distinct (map fst (AllocServers tok))"
    and "(T, S) \<in> set (AllocServers tok)"
    and "decode (MsgCmdOffset ctx) cmd = Inr (T, localCmd)"
    and "Gateway ctx < T" and "T < NodeTypeSize ctx"
    and "GetNode ctx (ServerID2NodeID ctx S) = Some target"
  shows "\<exists>gw'. OnRecvFromClient ctx (snd (VerifyToken ctx gw account token)) account cmd data
                = Inr (True, gw')
           \<and> relayed gw' = relayed gw @
               [(target, CMD_GW_RELAY_CLIENT_MSG ctx,
                 \<lparr>Account = account, CMD = localCmd, Data = data\<rparr>)]"
proof -
  let ?gw = "snd (VerifyToken ctx gw account token)"
  let ?v = "assignAll (ServerID2NodeID ctx) (AllocServers tok) Map.empty"
  from VerifyToken_0 [OF assms(2)] assms(1) have t: "token = Token tok" by auto
  have v: "VerifyToken ctx gw account token
           = (0, gw\<lparr>allocServers := (allocServers gw)(account \<mapsto> ?v)\<rparr>)"
    by (rule VerifyToken_success [OF assms(1) t])
  then have e: "allocServers ?gw account = Some ?v" and r: "relayed ?gw = relayed gw"
    by simp_all
  from decode_Inr [OF assms(5)]
  have d: "go_div cmd (MsgCmdOffset ctx) = Inr T" and l: "localCmd = cmd mod MsgCmdOffset ctx"
    by simp_all
  have "?v T = Some (ServerID2NodeID ctx S)"
    by (rule assignAll_lookup [OF assms(3) assms(4)])
  with assms(8)
  have "(case ?v T of Some id' \<Rightarrow> GetNode ctx id' | None \<Rightarrow> GetNodeOne ctx T) = Some target"
    by simp
  from OnRecv_forward [OF d assms(6) assms(7) e this, of data] r l show ?thesis by auto
qed

theorem verify_then_relay_sticky_witness:
  "LoadToken demo_ctx ''alice'' = Inr \<lparr>Token = ''secret'', AllocServers = [(4, 41), (5, 50)]\<rparr>
   \<and> fst (VerifyToken demo_ctx demo_gw ''alice'' ''secret'') = 0
   \<and> distinct (map fst [(4 :: u32, 41 :: nat), (5, 50)])
   \<and> (4, 41) \<in> set [(4 :: u32, 41 :: nat), (5, 50)]
   \<and> decode (MsgCmdOffset demo_ctx) 4001 = Inr (4, 1)
   \<and> Gateway demo_ctx < 4 \<and> 4 < NodeTypeSize demo_ctx
   \<and> GetNode demo_ctx (ServerID2NodeID demo_ctx 41) = Some ''lobby-41''
   \<and> GetNodeOne demo_ctx 4 = Some ''lobby-42''
   \<and> (\<exists>gw'. OnRecvFromClient demo_ctx (snd (VerifyToken demo_ctx demo_gw ''alice'' ''secret''))
               ''alice'' 4001 [9] = Inr (True, gw')
          \<and> relayed gw' = relayed demo_gw @
               [(''lobby-41'', CMD_GW_RELAY_CLIENT_MSG demo_ctx,
                 \<lparr>Account = ''alice'', CMD = 1, Data = [9]\<rparr>)])"
proof -
  let ?tok = "\<lparr>Token = ''secret'', AllocServers = [(4 :: u32, 41 :: nat), (5, 50)]\<rparr>"
  have l: "LoadToken demo_ctx ''alice'' = Inr ?tok" by (simp add: demo_ctx_def)
  have z: "fst (VerifyToken demo_ctx demo_gw ''alice'' ''secret'') = 0"
    by (simp add: VerifyToken_def demo_ctx_def)
  have d: "distinct (map fst (AllocServers ?tok))" by simp
  have m: "(4, 41) \<in> set (AllocServers ?tok)" by simp
  have h: "decode (MsgCmdOffset demo_ctx) 4001 = Inr (4, 1)"
    by (simp add: decode_def go_div_def go_mod_def demo_ctx_def)
  have g: "Gateway demo_ctx < 4" and s: "4 < NodeTypeSize demo_ctx"
    by (simp_all add: demo_ctx_def)
  have n: "GetNode demo_ctx (ServerID2NodeID demo_ctx 41) = Some ''lobby-41''"
    and o: "GetNodeOne demo_ctx 4 = Some ''lobby-42''"
    by (simp_all add: demo_ctx_def)
  from verify_then_relay_sticky [OF l z d m h g s n, of "[9]"] l z h g s n o
  show ?thesis by simp
qed

section \<open>Client send facade: properties\<close>

text \<open>
  C10: for every role name, command and message, \<open>SendMsgToClientByRoleName\<close> gives
  the result and the effect on the transport of \<open>SendMsgToClient\<close> called with the
  empty account.
\<close>

theorem SendMsgToClientByRoleName_eq:
  "SendMsgToClientByRoleName ctx w roleName cmd msg = SendMsgToClient ctx w '''' cmd msg"
  by (simp add: SendMsgToClientByRoleName_def)

end
